theory Spec2Isabelle
  imports Main
begin

section \<open>Python values used by compare\_images.py\<close>

text \<open>
  A Python \<open>str\<close> is modelled as a \<open>string\<close> whose characters are the code points
  U+0000 to U+00FF; the library operations below are the standard ones restricted to
  that range. Exceptions are values: a computation that can raise returns
  \<open>py_exc + 'a\<close>, with \<open>Inl\<close> the exception. Only subclasses of \<open>Exception\<close>
  are modelled, which is what the \<open>except Exception\<close> clauses of the source catch.
\<close>

datatype py_exc =
    FileNotFoundError string
  | OSError string
  | RuntimeError string
  | JSONDecodeError
  | RecursionError
  | AttributeError
  | KeyError
  | IndexError
  | TypeError
  | OtherException string

subsection \<open>String operations\<close>

definition py_isspace :: "char \<Rightarrow> bool" where
  \<comment> \<open>the characters \<open>str.strip()\<close> removes, below U+0100\<close>
  "py_isspace c = (let n = (of_char c :: nat) in
     (9 \<le> n \<and> n \<le> 13) \<or> (28 \<le> n \<and> n \<le> 32) \<or> n = 133 \<or> n = 160)"

definition py_lower_char :: "char \<Rightarrow> char" where
  \<comment> \<open>\<open>str.lower()\<close> on one character below U+0100: A-Z, and the Latin-1 capitals
      U+00C0 to U+00DE without the multiplication sign\<close>
  "py_lower_char c = (let n = (of_char c :: nat) in
     if (65 \<le> n \<and> n \<le> 90) \<or> (192 \<le> n \<and> n \<le> 222 \<and> n \<noteq> 215)
     then char_of (n + 32) else c)"

definition py_lower :: "string \<Rightarrow> string" where
  "py_lower s = map py_lower_char s"

definition py_strip :: "string \<Rightarrow> string" where
  \<comment> \<open>\<open>s.strip()\<close>\<close>
  "py_strip s = rev (dropWhile py_isspace (rev (dropWhile py_isspace s)))"

definition py_strip_chars :: "string \<Rightarrow> string \<Rightarrow> string" where
  \<comment> \<open>\<open>s.strip(chars)\<close>: removes, at both ends, every character that occurs in \<open>chars\<close>\<close>
  "py_strip_chars chars s =
     rev (dropWhile (\<lambda>c. c \<in> set chars) (rev (dropWhile (\<lambda>c. c \<in> set chars) s)))"

definition startswith :: "string \<Rightarrow> string \<Rightarrow> bool" where
  \<comment> \<open>\<open>s.startswith(p)\<close>\<close>
  "startswith s p = (take (length p) s = p)"

definition py_splitlines_break :: "char \<Rightarrow> bool" where
  \<comment> \<open>the line boundaries of \<open>str.splitlines()\<close> below U+0100; CR LF is handled apart\<close>
  "py_splitlines_break c = (let n = (of_char c :: nat) in
     (10 \<le> n \<and> n \<le> 13) \<or> (28 \<le> n \<and> n \<le> 30) \<or> n = 133)"

fun splitlines_from :: "string \<Rightarrow> string \<Rightarrow> string list" where
  \<comment> \<open>\<open>cur\<close> is the line read so far; a last line without content is not produced\<close>
  "splitlines_from cur [] = (if cur = [] then [] else [cur])"
| "splitlines_from cur (c # cs) =
     (if py_splitlines_break c then
        (case cs of
           [] \<Rightarrow> [cur]
         | d # ds \<Rightarrow>
             if c = CHR 0x0D \<and> d = CHR 0x0A then cur # splitlines_from [] ds
             else cur # splitlines_from [] (d # ds))
      else splitlines_from (cur @ [c]) cs)"

definition py_splitlines :: "string \<Rightarrow> string list" where
  \<comment> \<open>\<open>s.splitlines()\<close>\<close>
  "py_splitlines s = splitlines_from [] s"

definition py_split1 :: "char \<Rightarrow> string \<Rightarrow> string list" where
  \<comment> \<open>\<open>s.split(sep, 1)\<close> for a separator of one character\<close>
  "py_split1 sep s =
     (if sep \<in> set s
      then [takeWhile (\<lambda>c. c \<noteq> sep) s, tl (dropWhile (\<lambda>c. c \<noteq> sep) s)]
      else [s])"

definition py_index :: "'a list \<Rightarrow> nat \<Rightarrow> py_exc + 'a" where
  \<comment> \<open>\<open>xs[i]\<close> for \<open>i \<ge> 0\<close>\<close>
  "py_index xs i = (if i < length xs then Inr (xs ! i) else Inl IndexError)"

section \<open>JSON values and json.loads\<close>

text \<open>
  \<open>json.loads\<close> is the decoder of the standard library. The extraction below takes the
  decoder as a parameter \<open>loads\<close>, so that what is proved about the fallback chain holds
  for every decoder; \<open>json_loads\<close> is an executable model of the library's decoder,
  used to run the chain on concrete texts. A decoded integer is a \<open>JInt\<close>, a decoded
  float keeps its lexeme (floating point is not modelled), and a decoded object keeps its
  members in source order. An escape \<open>\uXXXX\<close> above U+00FF denotes a character beyond
  the modelled range and is refused. The recursion limit of the interpreter is not
  modelled: the fuel of \<open>json_loads\<close> is large enough for every text.
\<close>

datatype json =
    JNull
  | JBool bool
  | JInt int
  | JFloat string
  | JString string
  | JArray "json list"
  | JObject "(string \<times> json) list"

definition json_ws :: "char \<Rightarrow> bool" where
  "json_ws c = (c = CHR '' '' \<or> c = CHR 0x09 \<or> c = CHR 0x0A \<or> c = CHR 0x0D)"

definition skip_ws :: "string \<Rightarrow> string" where
  "skip_ws s = dropWhile json_ws s"

definition is_digit :: "char \<Rightarrow> bool" where
  "is_digit c = (48 \<le> (of_char c :: nat) \<and> (of_char c :: nat) \<le> 57)"

definition hex_value :: "char \<Rightarrow> nat option" where
  "hex_value c = (let n = (of_char c :: nat) in
     if 48 \<le> n \<and> n \<le> 57 then Some (n - 48)
     else if 65 \<le> n \<and> n \<le> 70 then Some (n - 55)
     else if 97 \<le> n \<and> n \<le> 102 then Some (n - 87)
     else None)"

definition hex4 :: "char \<Rightarrow> char \<Rightarrow> char \<Rightarrow> char \<Rightarrow> nat option" where
  "hex4 a b c d =
     (case (hex_value a, hex_value b, hex_value c, hex_value d) of
        (Some x, Some y, Some z, Some w) \<Rightarrow> Some (((x * 16 + y) * 16 + z) * 16 + w)
      | _ \<Rightarrow> None)"

definition unescape :: "char \<Rightarrow> char option" where
  \<comment> \<open>the character after a backslash, \<open>u\<close> apart\<close>
  "unescape c =
     (if c = CHR 0x22 then Some (CHR 0x22)
      else if c = CHR 0x5C then Some (CHR 0x5C)
      else if c = CHR ''/'' then Some (CHR ''/'')
      else if c = CHR ''b'' then Some (CHR 0x08)
      else if c = CHR ''f'' then Some (CHR 0x0C)
      else if c = CHR ''n'' then Some (CHR 0x0A)
      else if c = CHR ''r'' then Some (CHR 0x0D)
      else if c = CHR ''t'' then Some (CHR 0x09)
      else None)"

fun scanstring :: "string \<Rightarrow> string \<Rightarrow> py_exc + (string \<times> string)" where
  \<comment> \<open>the text after the opening quote; \<open>acc\<close> is the decoded string so far\<close>
  "scanstring acc [] = Inl JSONDecodeError"
| "scanstring acc (c # cs) =
     (if c = CHR 0x22 then Inr (acc, cs)
      else if c = CHR 0x5C then
        (case cs of
           [] \<Rightarrow> Inl JSONDecodeError
         | e # es \<Rightarrow>
             if e = CHR ''u'' then
               (case es of
                  h1 # h2 # h3 # h4 # rest \<Rightarrow>
                    (case hex4 h1 h2 h3 h4 of
                       None \<Rightarrow> Inl JSONDecodeError
                     | Some n \<Rightarrow>
                         if n < 256 then scanstring (acc @ [char_of n]) rest
                         else Inl (OtherException ''code point above U+00FF''))
                | _ \<Rightarrow> Inl JSONDecodeError)
             else
               (case unescape e of
                  None \<Rightarrow> Inl JSONDecodeError
                | Some ch \<Rightarrow> scanstring (acc @ [ch]) es))
      else if (of_char c :: nat) < 32 then Inl JSONDecodeError
      else scanstring (acc @ [c]) cs)"

definition digits_value :: "string \<Rightarrow> int" where
  "digits_value ds = foldl (\<lambda>v d. v * 10 + (int (of_char d) - 48)) 0 ds"

definition scan_int :: "string \<Rightarrow> (string \<times> string) option" where
  \<comment> \<open>\<open>0|[1-9][0-9]*\<close>: the digits matched and the rest\<close>
  "scan_int s =
     (case s of
        [] \<Rightarrow> None
      | d # ds \<Rightarrow>
          if d = CHR ''0'' then Some ([d], ds)
          else if is_digit d then Some (d # takeWhile is_digit ds, dropWhile is_digit ds)
          else None)"

definition scan_frac :: "string \<Rightarrow> string \<times> string" where
  \<comment> \<open>\<open>(\.[0-9]+)?\<close>\<close>
  "scan_frac s =
     (case s of
        p # d # ds \<Rightarrow>
          if p = CHR ''.'' \<and> is_digit d
          then (p # d # takeWhile is_digit ds, dropWhile is_digit ds)
          else ([], s)
      | _ \<Rightarrow> ([], s))"

definition scan_exp :: "string \<Rightarrow> string \<times> string" where
  \<comment> \<open>\<open>([eE][-+]?[0-9]+)?\<close>\<close>
  "scan_exp s =
     (case s of
        e # r \<Rightarrow>
          if e = CHR ''e'' \<or> e = CHR ''E'' then
            (case r of
               g # ds \<Rightarrow>
                 if g = CHR ''-'' \<or> g = CHR ''+'' then
                   (case ds of
                      d # ds' \<Rightarrow>
                        if is_digit d
                        then (e # g # d # takeWhile is_digit ds', dropWhile is_digit ds')
                        else ([], s)
                    | [] \<Rightarrow> ([], s))
                 else if is_digit g
                 then (e # g # takeWhile is_digit ds, dropWhile is_digit ds)
                 else ([], s)
             | [] \<Rightarrow> ([], s))
          else ([], s)
      | [] \<Rightarrow> ([], s))"

definition scan_number :: "string \<Rightarrow> (json \<times> string) option" where
  "scan_number s =
     (let negative = (s \<noteq> [] \<and> hd s = CHR ''-'');
          s1 = (if negative then tl s else s)
      in case scan_int s1 of
           None \<Rightarrow> None
         | Some (integer, r1) \<Rightarrow>
             (case scan_frac r1 of
                (frac, r2) \<Rightarrow>
                  (case scan_exp r2 of
                     (exp, r3) \<Rightarrow>
                       if frac = [] \<and> exp = [] then
                         Some (JInt (if negative then - digits_value integer
                                     else digits_value integer), r3)
                       else
                         Some (JFloat ((if negative then ''-'' else []) @ integer @ frac @ exp),
                               r3))))"

definition scan_constant :: "string \<Rightarrow> (json \<times> string) option" where
  "scan_constant s =
     (if startswith s ''NaN'' then Some (JFloat ''NaN'', drop 3 s)
      else if startswith s ''Infinity'' then Some (JFloat ''Infinity'', drop 8 s)
      else if startswith s ''-Infinity'' then Some (JFloat ''-Infinity'', drop 9 s)
      else None)"

fun parse_value :: "nat \<Rightarrow> string \<Rightarrow> py_exc + (json \<times> string)"
  and parse_items :: "nat \<Rightarrow> string \<Rightarrow> py_exc + (json list \<times> string)"
  and parse_members :: "nat \<Rightarrow> string \<Rightarrow> py_exc + ((string \<times> json) list \<times> string)"
where
  "parse_value 0 s = Inl RecursionError"
| "parse_value (Suc n) [] = Inl JSONDecodeError"
| "parse_value (Suc n) (c # cs) =
     (if c = CHR 0x22 then
        (case scanstring [] cs of
           Inl e \<Rightarrow> Inl e
         | Inr (str, rest) \<Rightarrow> Inr (JString str, rest))
      else if c = CHR 0x7B then
        (if startswith (skip_ws cs) [CHR 0x7D] then Inr (JObject [], tl (skip_ws cs))
         else (case parse_members n (skip_ws cs) of
                 Inl e \<Rightarrow> Inl e
               | Inr (members, rest) \<Rightarrow> Inr (JObject members, rest)))
      else if c = CHR 0x5B then
        (if startswith (skip_ws cs) [CHR 0x5D] then Inr (JArray [], tl (skip_ws cs))
         else (case parse_items n (skip_ws cs) of
                 Inl e \<Rightarrow> Inl e
               | Inr (items, rest) \<Rightarrow> Inr (JArray items, rest)))
      else if startswith (c # cs) ''null'' then Inr (JNull, drop 4 (c # cs))
      else if startswith (c # cs) ''true'' then Inr (JBool True, drop 4 (c # cs))
      else if startswith (c # cs) ''false'' then Inr (JBool False, drop 5 (c # cs))
      else (case scan_number (c # cs) of
              Some r \<Rightarrow> Inr r
            | None \<Rightarrow>
                (case scan_constant (c # cs) of
                   Some r \<Rightarrow> Inr r
                 | None \<Rightarrow> Inl JSONDecodeError)))"
| "parse_items 0 s = Inl RecursionError"
| "parse_items (Suc n) s =
     (case parse_value n s of
        Inl e \<Rightarrow> Inl e
      | Inr (v, rest) \<Rightarrow>
          (case skip_ws rest of
             [] \<Rightarrow> Inl JSONDecodeError
           | c # cs \<Rightarrow>
               if c = CHR 0x5D then Inr ([v], cs)
               else if c = CHR '','' then
                 (case parse_items n (skip_ws cs) of
                    Inl e \<Rightarrow> Inl e
                  | Inr (vs, rest') \<Rightarrow> Inr (v # vs, rest'))
               else Inl JSONDecodeError))"
| "parse_members 0 s = Inl RecursionError"
| "parse_members (Suc n) [] = Inl JSONDecodeError"
| "parse_members (Suc n) (q # qs) =
     (if q \<noteq> CHR 0x22 then Inl JSONDecodeError
      else
        (case scanstring [] qs of
           Inl e \<Rightarrow> Inl e
         | Inr (key, rest) \<Rightarrow>
             (case skip_ws rest of
                [] \<Rightarrow> Inl JSONDecodeError
              | colon # r \<Rightarrow>
                  if colon \<noteq> CHR '':'' then Inl JSONDecodeError
                  else
                    (case parse_value n (skip_ws r) of
                       Inl e \<Rightarrow> Inl e
                     | Inr (v, rest2) \<Rightarrow>
                         (case skip_ws rest2 of
                            [] \<Rightarrow> Inl JSONDecodeError
                          | c # cs \<Rightarrow>
                              if c = CHR 0x7D then Inr ([(key, v)], cs)
                              else if c = CHR '','' then
                                (case parse_members n (skip_ws cs) of
                                   Inl e \<Rightarrow> Inl e
                                 | Inr (kvs, rest3) \<Rightarrow> Inr ((key, v) # kvs, rest3))
                              else Inl JSONDecodeError)))))"

definition json_loads :: "string \<Rightarrow> py_exc + json" where
  "json_loads s =
     (case parse_value (Suc (2 * length s)) (skip_ws s) of
        Inl e \<Rightarrow> Inl e
      | Inr (v, rest) \<Rightarrow> if skip_ws rest = [] then Inr v else Inl JSONDecodeError)"

section \<open>Question extraction (get\_comparison\_questions, lines 71 to 113)\<close>

text \<open>
  The body of each \<open>try\<close> is a function of the completion text that returns
  \<open>Inl\<close> an exception raised inside it, \<open>Inr (Some questions)\<close> when it reaches its
  \<open>return\<close>, and \<open>Inr None\<close> when it ends without returning. The questions returned
  are Python values: the decoded JSON values of the first two bodies as they are, and
  \<open>str\<close> values, written \<open>JString\<close>, for the third body and the fallback. The
  diagnostic prints of lines 68, 69, 78, 92, 104 and 107 do not change the value returned
  and are left out.
\<close>

type_synonym loads = "string \<Rightarrow> py_exc + json"

definition try1_body :: "loads \<Rightarrow> string \<Rightarrow> py_exc + json list option" where
  \<comment> \<open>lines 72 to 76\<close>
  "try1_body loads content =
     (if startswith (py_strip content) ''```json'' then
        (let stripped =
               py_strip (py_strip_chars ''```'' (py_strip_chars ''```json'' (py_strip content)))
         in case loads stripped of
              Inl e \<Rightarrow> Inl e
            | Inr questions \<Rightarrow>
                (case questions of JArray items \<Rightarrow> Inr (Some items) | _ \<Rightarrow> Inr None))
      else Inr None)"

definition try2_stripped :: "string \<Rightarrow> string" where
  \<comment> \<open>lines 82 to 86: the text given to the decoder\<close>
  "try2_stripped content =
     (let stripped = py_strip content in
      if startswith stripped ''```json''
      then py_strip (py_strip_chars ''```'' (py_strip_chars ''```json'' stripped))
      else if startswith stripped ''```''
      then py_strip (py_strip_chars ''```'' stripped)
      else stripped)"

definition try2_body :: "loads \<Rightarrow> string \<Rightarrow> py_exc + json list option" where
  \<comment> \<open>lines 82 to 90\<close>
  "try2_body loads content =
     (case loads (try2_stripped content) of
        Inl e \<Rightarrow> Inl e
      | Inr questions \<Rightarrow>
          (case questions of JArray items \<Rightarrow> Inr (Some items) | _ \<Rightarrow> Inr None))"

fun numbered_items :: "string list \<Rightarrow> py_exc + string list" where
  \<comment> \<open>the list comprehension of lines 97 to 100\<close>
  "numbered_items [] = Inr []"
| "numbered_items (line # lines) =
     (if CHR ''.'' \<in> set line then
        (case py_index (py_split1 (CHR ''.'') line) 1 of
           Inl e \<Rightarrow> Inl e
         | Inr part \<Rightarrow>
             if length (py_strip part) > 0 then
               (case numbered_items lines of
                  Inl e \<Rightarrow> Inl e
                | Inr rest \<Rightarrow> Inr (py_strip part # rest))
             else numbered_items lines)
      else numbered_items lines)"

definition try3_body :: "string \<Rightarrow> py_exc + json list option" where
  \<comment> \<open>lines 96 to 102\<close>
  "try3_body content =
     (case numbered_items (py_splitlines (py_strip content)) of
        Inl e \<Rightarrow> Inl e
      | Inr questions \<Rightarrow>
          if length questions \<ge> 3 then Inr (Some (map JString questions)) else Inr None)"

definition fallback_questions :: "json list" where
  \<comment> \<open>lines 108 to 113\<close>
  "fallback_questions =
     [JString ''What objects are visible in the image?'',
      JString ''What are the main colors present?'',
      JString ''What actions or activities are occurring?'',
      JString ''Describe the setting or background.'']"

definition except_Exception :: "py_exc + 'a option \<Rightarrow> 'a option" where
  \<comment> \<open>\<open>try: ... except Exception as e: print(...)\<close>: an exception of the body is caught
      and the statements after the \<open>try\<close> run\<close>
  "except_Exception r = (case r of Inl e \<Rightarrow> None | Inr x \<Rightarrow> x)"

definition questions_from_content :: "loads \<Rightarrow> string \<Rightarrow> json list" where
  \<comment> \<open>lines 71 to 113\<close>
  "questions_from_content loads content =
     (case except_Exception (try1_body loads content) of
        Some questions \<Rightarrow> questions
      | None \<Rightarrow>
          (case except_Exception (try2_body loads content) of
             Some questions \<Rightarrow> questions
           | None \<Rightarrow>
               (case except_Exception (try3_body content) of
                  Some questions \<Rightarrow> questions
                | None \<Rightarrow> fallback_questions)))"

subsection \<open>Notions used to state the properties of the extraction\<close>

definition is_list :: "json \<Rightarrow> bool" where
  \<comment> \<open>\<open>isinstance(questions, list)\<close>\<close>
  "is_list v = (case v of JArray items \<Rightarrow> True | _ \<Rightarrow> False)"

definition nonempty_str :: "json \<Rightarrow> bool" where
  \<comment> \<open>a \<open>str\<close> that is not empty\<close>
  "nonempty_str v = (case v of JString s \<Rightarrow> s \<noteq> [] | _ \<Rightarrow> False)"

definition after_first_period :: "string \<Rightarrow> string" where
  \<comment> \<open>the text of a line after its first period\<close>
  "after_first_period line = drop (Suc (length (takeWhile (\<lambda>c. c \<noteq> CHR ''.'') line))) line"

definition period_candidates :: "string list \<Rightarrow> string list" where
  \<comment> \<open>in the words of the specification: for every line containing a period, the trimmed
      text after the first period, when it is not empty, in line order\<close>
  "period_candidates lines =
     filter (\<lambda>t. t \<noteq> [])
       (map (\<lambda>line. py_strip (after_first_period line))
          (filter (\<lambda>line. CHR ''.'' \<in> set line) lines))"

section \<open>The difference evaluation loop (execute\_visprog\_comparison)\<close>

text \<open>
  \<open>interpreter.execute\<close> belongs to the visual reasoning engine, which is not part of
  the file; it is a parameter \<open>execute\<close>. It receives the programs executed before (the
  engine may keep state between calls) and the program text, and returns the answer or
  raises. The answer is a \<open>str\<close>, on which the \<open>str(s)\<close> of line 140 is the identity.

  What one iteration prints is kept as one \<open>question_block\<close>: line 128 (number and
  question), then either lines 137, 138 and 143 (LEFT, RIGHT, Different?) or line 145
  (the error), then line 146 (the running total).
\<close>

definition prog_L :: "string \<Rightarrow> string" where
  "prog_L question =
     ''ANSWER=VQA(image=LEFT,question='' @ [CHR 0x27] @ question @ [CHR 0x27] @ '')''
       @ [CHR 0x0A] @ ''FINAL_ANSWER=RESULT(var=ANSWER)''"

definition prog_R :: "string \<Rightarrow> string" where
  "prog_R question =
     ''ANSWER=VQA(image=RIGHT,question='' @ [CHR 0x27] @ question @ [CHR 0x27] @ '')''
       @ [CHR 0x0A] @ ''FINAL_ANSWER=RESULT(var=ANSWER)''"

definition norm :: "string \<Rightarrow> string" where
  \<comment> \<open>\<open>norm = lambda s: str(s).strip().lower()\<close>\<close>
  "norm s = py_lower (py_strip s)"

datatype answer_lines =
    Answered string string bool
  | Errored py_exc

record question_block =
  q_index :: nat
  q_text :: string
  q_lines :: answer_lines
  q_total :: nat

record loop_state =
  difference_counter :: nat
  executed :: "string list"
  printed :: "question_block list"

type_synonym engine = "string list \<Rightarrow> string \<Rightarrow> py_exc + string"

definition loop_body :: "engine \<Rightarrow> nat \<Rightarrow> string \<Rightarrow> loop_state \<Rightarrow> loop_state" where
  "loop_body execute i question st =
     (case execute (executed st) (prog_L question) of
        Inl e \<Rightarrow>
          st\<lparr>executed := executed st @ [prog_L question],
             printed := printed st @
               [\<lparr>q_index = i, q_text = question, q_lines = Errored e,
                 q_total = difference_counter st\<rparr>]\<rparr>
      | Inr left_ans \<Rightarrow>
          (case execute (executed st @ [prog_L question]) (prog_R question) of
             Inl e \<Rightarrow>
               st\<lparr>executed := executed st @ [prog_L question, prog_R question],
                  printed := printed st @
                    [\<lparr>q_index = i, q_text = question, q_lines = Errored e,
                      q_total = difference_counter st\<rparr>]\<rparr>
           | Inr right_ans \<Rightarrow>
               (let different = (norm left_ans \<noteq> norm right_ans);
                    counter = (if different then difference_counter st + 1
                               else difference_counter st)
                in \<lparr>difference_counter = counter,
                    executed = executed st @ [prog_L question, prog_R question],
                    printed = printed st @
                      [\<lparr>q_index = i, q_text = question,
                        q_lines = Answered left_ans right_ans different,
                        q_total = counter\<rparr>]\<rparr>)))"

fun visprog_loop :: "engine \<Rightarrow> nat \<Rightarrow> string list \<Rightarrow> loop_state \<Rightarrow> loop_state" where
  "visprog_loop execute i [] st = st"
| "visprog_loop execute i (question # questions) st =
     visprog_loop execute (i + 1) questions (loop_body execute i question st)"

definition loop_start :: loop_state where
  \<comment> \<open>line 117, before the first iteration\<close>
  "loop_start = \<lparr>difference_counter = 0, executed = [], printed = []\<rparr>"

definition is_different :: "question_block \<Rightarrow> bool" where
  \<comment> \<open>the block shows \<open>Different? -> Yes\<close>\<close>
  "is_different b = (case q_lines b of Answered l r d \<Rightarrow> d | Errored e \<Rightarrow> False)"

definition question_error :: "engine \<Rightarrow> string list \<Rightarrow> string \<Rightarrow> py_exc option" where
  \<comment> \<open>the exception raised inside the \<open>try\<close> of lines 133 to 143 for a question, if any,
      when the engine has executed \<open>hist\<close> before\<close>
  "question_error execute hist question =
     (case execute hist (prog_L question) of
        Inl e \<Rightarrow> Some e
      | Inr left_ans \<Rightarrow>
          (case execute (hist @ [prog_L question]) (prog_R question) of
             Inl e \<Rightarrow> Some e
           | Inr right_ans \<Rightarrow> None))"

definition demo_engine :: engine where
  \<comment> \<open>an engine for the examples: it fails on the LEFT image for one question and
      answers the others\<close>
  "demo_engine hist prog =
     (if prog = prog_L ''Is anyone walking?'' then Inl (OtherException ''engine failure'')
      else if prog = prog_R ''What is the color of the shirt?'' then Inr ''No''
      else if prog = prog_R ''How many cars are there?'' then Inr ''3''
      else if startswith prog ''ANSWER=VQA(image=LEFT'' then Inr ''Yes''
      else Inr '' yes '')"

section \<open>Files, the completion request and compare\_images\<close>

text \<open>
  The collaborators of the file are parameters, gathered in an environment: the file
  system, \<open>requests.post\<close>, \<open>json.loads\<close>, the image decoder of \<open>PIL\<close>, the
  interpreter of the engine and \<open>str()\<close> on decoded values that are not strings. The
  construction of the interpreter (line 124) is taken to succeed. The base64 text of an
  image is represented by the bytes it encodes, and a request by the key, the prompt and
  the three images it carries. Each function returns, with its result, the calls it made
  to the outside: file reads, requests and image loads, in order. The prints of lines 153
  to 158 are left out; the blocks printed by the loop are in the final \<open>loop_state\<close>.
\<close>

datatype fs_entry =
    Absent
  | Unreadable
  | Readable string

datatype effect =
    ReadFile string
  | HttpPost string string "string list"
  | OpenImage string

record response =
  status_code :: int
  res_text :: string

record 'img env =
  fs :: "string \<Rightarrow> fs_entry"
  OPENAI_API_KEY :: string
  GPT_TASK_PROMPT :: string
  requests_post :: "string \<Rightarrow> string \<Rightarrow> string list \<Rightarrow> py_exc + response"
  json_decoder :: loads
  decode_image :: "string \<Rightarrow> py_exc + 'img"
  interpreter :: "'img \<Rightarrow> 'img \<Rightarrow> engine"
  str_of :: "json \<Rightarrow> string"

definition os_path_exists :: "(string \<Rightarrow> fs_entry) \<Rightarrow> string \<Rightarrow> bool" where
  "os_path_exists files path = (files path \<noteq> Absent)"

definition open_rb_read :: "(string \<Rightarrow> fs_entry) \<Rightarrow> string \<Rightarrow> py_exc + string" where
  \<comment> \<open>\<open>open(path, 'rb')\<close> and \<open>f.read()\<close>\<close>
  "open_rb_read files path =
     (case files path of
        Absent \<Rightarrow> Inl (FileNotFoundError (''[Errno 2] No such file or directory: '' @ path))
      | Unreadable \<Rightarrow> Inl (OSError path)
      | Readable bytes \<Rightarrow> Inr bytes)"

definition encode_image_to_base64 :: "'img env \<Rightarrow> string \<Rightarrow> py_exc + string" where
  "encode_image_to_base64 e image_path = open_rb_read (fs e) image_path"

fun str_nat :: "nat \<Rightarrow> string" where
  "str_nat n =
     (if n < 10 then [char_of (48 + n)] else str_nat (n div 10) @ [char_of (48 + n mod 10)])"

definition str_int :: "int \<Rightarrow> string" where
  \<comment> \<open>\<open>str\<close> of an \<open>int\<close>\<close>
  "str_int i = (if i < 0 then ''-'' @ str_nat (nat (- i)) else str_nat (nat i))"

definition getitem_key :: "json \<Rightarrow> string \<Rightarrow> py_exc + json" where
  \<comment> \<open>\<open>v[key]\<close> for a \<open>str\<close> key; in a decoded object the last member of a name wins\<close>
  "getitem_key v key =
     (case v of
        JObject members \<Rightarrow>
          (case map_of (rev members) key of None \<Rightarrow> Inl KeyError | Some x \<Rightarrow> Inr x)
      | _ \<Rightarrow> Inl TypeError)"

definition getitem_0 :: "json \<Rightarrow> py_exc + json" where
  \<comment> \<open>\<open>v[0]\<close>\<close>
  "getitem_0 v =
     (case v of
        JArray items \<Rightarrow> py_index items 0
      | JString s \<Rightarrow> (case s of [] \<Rightarrow> Inl IndexError | c # cs \<Rightarrow> Inr (JString [c]))
      | JObject members \<Rightarrow> Inl KeyError
      | _ \<Rightarrow> Inl TypeError)"

definition response_content :: "loads \<Rightarrow> response \<Rightarrow> py_exc + json" where
  \<comment> \<open>line 67: \<open>res.json()['choices'][0]['message']['content']\<close>\<close>
  "response_content decoder res =
     (case decoder (res_text res) of
        Inl e \<Rightarrow> Inl e
      | Inr j \<Rightarrow>
          (case getitem_key j ''choices'' of
             Inl e \<Rightarrow> Inl e
           | Inr choices \<Rightarrow>
               (case getitem_0 choices of
                  Inl e \<Rightarrow> Inl e
                | Inr choice \<Rightarrow>
                    (case getitem_key choice ''message'' of
                       Inl e \<Rightarrow> Inl e
                     | Inr message \<Rightarrow> getitem_key message ''content''))))"

definition questions_from_value :: "loads \<Rightarrow> json \<Rightarrow> json list" where
  \<comment> \<open>lines 71 to 113 for any content: when the content is not a \<open>str\<close>,
      \<open>content.strip()\<close> raises \<open>AttributeError\<close> inside each of the three \<open>try\<close>
      bodies, and the fallback list is returned\<close>
  "questions_from_value decoder content =
     (case content of
        JString s \<Rightarrow> questions_from_content decoder s
      | _ \<Rightarrow> fallback_questions)"

definition get_comparison_questions ::
  "'img env \<Rightarrow> string \<Rightarrow> string \<Rightarrow> string \<Rightarrow> (py_exc + json list) \<times> effect list" where
  "get_comparison_questions e img1_path img2_path diff_path =
     (case encode_image_to_base64 e img1_path of
        Inl x \<Rightarrow> (Inl x, [ReadFile img1_path])
      | Inr img1_b64 \<Rightarrow>
          (case encode_image_to_base64 e img2_path of
             Inl x \<Rightarrow> (Inl x, [ReadFile img1_path, ReadFile img2_path])
           | Inr img2_b64 \<Rightarrow>
               (case encode_image_to_base64 e diff_path of
                  Inl x \<Rightarrow>
                    (Inl x, [ReadFile img1_path, ReadFile img2_path, ReadFile diff_path])
                | Inr diff_b64 \<Rightarrow>
                    (let calls = [ReadFile img1_path, ReadFile img2_path, ReadFile diff_path,
                                  HttpPost (OPENAI_API_KEY e) (GPT_TASK_PROMPT e)
                                    [img1_b64, img2_b64, diff_b64]]
                     in case requests_post e (OPENAI_API_KEY e) (GPT_TASK_PROMPT e)
                               [img1_b64, img2_b64, diff_b64] of
                          Inl x \<Rightarrow> (Inl x, calls)
                        | Inr res \<Rightarrow>
                            if status_code res \<noteq> 200 then
                              (Inl (RuntimeError (''OpenAI API error: ''
                                      @ str_int (status_code res) @ '' - '' @ res_text res)),
                               calls)
                            else
                              (case response_content (json_decoder e) res of
                                 Inl x \<Rightarrow> (Inl x, calls)
                               | Inr content \<Rightarrow>
                                   (Inr (questions_from_value (json_decoder e) content), calls))))))"

definition image_open :: "'img env \<Rightarrow> string \<Rightarrow> py_exc + 'img" where
  \<comment> \<open>\<open>Image.open(path).convert("RGB")\<close>, with the thumbnail of lines 120 and 121\<close>
  "image_open e path =
     (case open_rb_read (fs e) path of
        Inl x \<Rightarrow> Inl x
      | Inr bytes \<Rightarrow> decode_image e bytes)"

definition question_text :: "'img env \<Rightarrow> json \<Rightarrow> string" where
  \<comment> \<open>\<open>f"{question}"\<close>\<close>
  "question_text e question = (case question of JString s \<Rightarrow> s | _ \<Rightarrow> str_of e question)"

definition execute_visprog_comparison ::
  "'img env \<Rightarrow> string \<Rightarrow> string \<Rightarrow> json list \<Rightarrow> (py_exc + loop_state) \<times> effect list" where
  "execute_visprog_comparison e img1_path img2_path questions =
     (case image_open e img1_path of
        Inl x \<Rightarrow> (Inl x, [OpenImage img1_path])
      | Inr img_left \<Rightarrow>
          (case image_open e img2_path of
             Inl x \<Rightarrow> (Inl x, [OpenImage img1_path, OpenImage img2_path])
           | Inr img_right \<Rightarrow>
               (Inr (visprog_loop (interpreter e img_left img_right) 1
                       (map (question_text e) questions) loop_start),
                [OpenImage img1_path, OpenImage img2_path])))"

definition compare_images ::
  "'img env \<Rightarrow> string \<Rightarrow> string \<Rightarrow> string \<Rightarrow> (py_exc + loop_state) \<times> effect list" where
  "compare_images e img1_path img2_path diff_path =
     (if \<not> (os_path_exists (fs e) img1_path \<and> os_path_exists (fs e) img2_path) then
        (Inl (FileNotFoundError '' One or both image paths do not exist.''), [])
      else
        (case get_comparison_questions e img1_path img2_path diff_path of
           (Inl x, calls) \<Rightarrow> (Inl x, calls)
         | (Inr questions, calls) \<Rightarrow>
             (case execute_visprog_comparison e img1_path img2_path questions of
                (r, calls') \<Rightarrow> (r, calls @ calls'))))"

subsection \<open>Notions used to state the properties of the orchestration\<close>

definition is_request :: "effect \<Rightarrow> bool" where
  "is_request c = (case c of HttpPost key prompt images \<Rightarrow> True | _ \<Rightarrow> False)"

definition is_transport_failure :: "py_exc + 'a \<Rightarrow> bool" where
  \<comment> \<open>the \<open>RuntimeError\<close> of line 65\<close>
  "is_transport_failure r = (case r of Inl (RuntimeError m) \<Rightarrow> True | _ \<Rightarrow> False)"

definition demo_completion :: string where
  \<comment> \<open>a response body whose content is a JSON array of two questions\<close>
  \<open>demo_completion =
     ''{"choices":[{"message":{"content":"['' @ [CHR 0x5C, CHR 0x22]
       @ ''Is there a boat?'' @ [CHR 0x5C, CHR 0x22] @ '', '' @ [CHR 0x5C, CHR 0x22]
       @ ''Is anyone walking?'' @ [CHR 0x5C, CHR 0x22] @ '']"}}]}''\<close>

definition demo_env :: "string env" where
  \<comment> \<open>an environment for the examples: the two scene images and a heatmap exist, and the
      completion service answers with \<open>demo_completion\<close>\<close>
  "demo_env =
     \<lparr>fs = (\<lambda>path. if path = ''assets/hard1.png'' then Readable ''left''
                   else if path = ''assets/hard2.png'' then Readable ''right''
                   else if path = ''assets/difference_heatmap.png'' then Readable ''heat''
                   else Absent),
      OPENAI_API_KEY = ''key'',
      GPT_TASK_PROMPT = ''Respond only with a JSON array of strings'',
      requests_post = (\<lambda>key prompt images. Inr \<lparr>status_code = 200, res_text = demo_completion\<rparr>),
      json_decoder = json_loads,
      decode_image = (\<lambda>bytes. Inr bytes),
      interpreter = (\<lambda>left right. demo_engine),
      str_of = (\<lambda>v. [])\<rparr>"

section \<open>Properties of the evaluation loop\<close>


lemma loop_body_shape:
  "\<exists>b ex. loop_body execute i q st =
      \<lparr>difference_counter = q_total b, executed = executed st @ prog_L q # ex, printed = printed st @ [b]\<rparr>
    \<and> q_index b = i \<and> q_text b = q
    \<and> q_total b = difference_counter st + (if is_different b then 1 else 0)"
proof (cases "execute (executed st) (prog_L q)")
  case (Inl e)
  show ?thesis
    by (rule exI[of _ "\<lparr>q_index = i, q_text = q, q_lines = Errored e,
                 q_total = difference_counter st\<rparr>"], rule exI[of _ "[]"])
       (simp add: loop_body_def Inl is_different_def)
next
  case (Inr l)
  show ?thesis
  proof (cases "execute (executed st @ [prog_L q]) (prog_R q)")
    case (Inl e)
    show ?thesis
      by (rule exI[of _ "\<lparr>q_index = i, q_text = q, q_lines = Errored e,
                 q_total = difference_counter st\<rparr>"], rule exI[of _ "[prog_R q]"])
         (simp add: loop_body_def Inl is_different_def \<open>execute (executed st) (prog_L q) = Inr l\<close>)
  next
    case (Inr r)
    show ?thesis
      by (rule exI[of _ "\<lparr>q_index = i, q_text = q, q_lines = Answered l r (norm l \<noteq> norm r),
                 q_total = (if norm l \<noteq> norm r then difference_counter st + 1
                               else difference_counter st)\<rparr>"], rule exI[of _ "[prog_R q]"])
         (simp add: loop_body_def Inr is_different_def \<open>execute (executed st) (prog_L q) = Inr l\<close> Let_def)
  qed
qed

lemma visprog_loop_append:
  "visprog_loop execute i (qs1 @ qs2) st =
     visprog_loop execute (i + length qs1) qs2 (visprog_loop execute i qs1 st)"
  by (induction qs1 arbitrary: i st) auto

lemma visprog_loop_printed:
  "\<exists>new. printed (visprog_loop execute i qs st) = printed st @ new
     \<and> map q_text new = qs
     \<and> difference_counter (visprog_loop execute i qs st)
          = difference_counter st + length (filter is_different new)
     \<and> (\<forall>k < length qs. q_index (new ! k) = i + k \<and> q_total (new ! k)
          = difference_counter st + length (filter is_different (take (Suc k) new)))"
proof (induction qs arbitrary: i st)
  case Nil
  then show ?case by simp
next
  case (Cons q qs)
  obtain b ex where b: "loop_body execute i q st =
      \<lparr>difference_counter = q_total b, executed = executed st @ prog_L q # ex, printed = printed st @ [b]\<rparr>"
     "q_index b = i" "q_text b = q"
     "q_total b = difference_counter st + (if is_different b then 1 else 0)"
    using loop_body_shape by blast
  let ?st' = "loop_body execute i q st"
  from Cons.IH[of "i + 1" ?st'] obtain new where new:
    "printed (visprog_loop execute (i + 1) qs ?st') = printed ?st' @ new"
    "map q_text new = qs" 
    "difference_counter (visprog_loop execute (i + 1) qs ?st')
          = difference_counter ?st' + length (filter is_different new)"
    "\<forall>k < length qs. q_index (new ! k) = i + 1 + k \<and> q_total (new ! k)
          = difference_counter ?st' + length (filter is_different (take (Suc k) new))"
    by blast
  have "\<forall>k < length (q # qs). q_index ((b # new) ! k) = i + k \<and> q_total ((b # new) ! k)
          = difference_counter st + length (filter is_different (take (Suc k) (b # new)))"
  proof (intro allI impI)
    fix k assume k: "k < length (q # qs)"
    show "q_index ((b # new) ! k) = i + k \<and> q_total ((b # new) ! k)
          = difference_counter st + length (filter is_different (take (Suc k) (b # new)))"
    proof (cases k)
      case 0
      then show ?thesis using b(2,4) by simp
    next
      case (Suc k')
      then have "k' < length qs" using k by simp
      then show ?thesis using new(4) b Suc by simp
    qed
  qed
  then show ?case
    using b new(1,2,3) by (intro exI[of _ "b # new"]) simp
qed

lemma visprog_loop_executed:
  "\<exists>ex. executed (visprog_loop execute i qs st) = executed st @ ex \<and> prog_L ` set qs \<subseteq> set ex"
proof (induction qs arbitrary: i st)
  case Nil
  then show ?case by simp
next
  case (Cons q qs)
  obtain b ex where b: "loop_body execute i q st =
      \<lparr>difference_counter = q_total b, executed = executed st @ prog_L q # ex, printed = printed st @ [b]\<rparr>"
    using loop_body_shape by blast
  from Cons.IH[of "i + 1" "loop_body execute i q st"] obtain ex' where
    "executed (visprog_loop execute (i + 1) qs (loop_body execute i q st))
       = executed (loop_body execute i q st) @ ex'" "prog_L ` set qs \<subseteq> set ex'"
    by blast
  then show ?case using b by (intro exI[of _ "prog_L q # ex @ ex'"]) auto
qed



lemma prog_L_neq_prog_R: "prog_L q \<noteq> prog_R q"
  by (simp add: prog_L_def prog_R_def)

text \<open>
  Claim C2. When both executions of a question return, the \<open>Different?\<close> line of the
  block is \<open>Yes\<close> exactly when the two answers differ after trimming the surrounding
  whitespace and lower-casing, and the counter is incremented exactly then. With the
  answers \<open>Yes\<close> and \<open> yes \<close> the line is \<open>No\<close>; with \<open>Yes\<close> and \<open>No\<close> it is
  \<open>Yes\<close>.
\<close>
theorem different_iff_normalized_answers_differ:
  assumes "execute (executed st) (prog_L question) = Inr left_ans"
    and "execute (executed st @ [prog_L question]) (prog_R question) = Inr right_ans"
  shows "q_lines (last (printed (loop_body execute i question st)))
           = Answered left_ans right_ans
               (py_lower (py_strip left_ans) \<noteq> py_lower (py_strip right_ans))
       \<and> is_different (last (printed (loop_body execute i question st)))
           = (py_lower (py_strip left_ans) \<noteq> py_lower (py_strip right_ans))
       \<and> difference_counter (loop_body execute i question st)
           = (if py_lower (py_strip left_ans) \<noteq> py_lower (py_strip right_ans)
              then difference_counter st + 1 else difference_counter st)
       \<and> (left_ans = ''Yes'' \<and> right_ans = '' yes ''
            \<longrightarrow> \<not> is_different (last (printed (loop_body execute i question st))))
       \<and> (left_ans = ''Yes'' \<and> right_ans = ''No''
            \<longrightarrow> is_different (last (printed (loop_body execute i question st))))"
proof -
  have yes: "py_lower (py_strip ''Yes'') = py_lower (py_strip '' yes '')" by code_simp
  have no: "py_lower (py_strip ''Yes'') \<noteq> py_lower (py_strip ''No'')" by code_simp
  show ?thesis
    using assms yes no by (simp add: loop_body_def is_different_def norm_def Let_def)
qed

theorem different_iff_normalized_answers_differ_witness:
  "demo_engine (executed loop_start) (prog_L ''Is there a boat?'') = Inr ''Yes''
   \<and> demo_engine (executed loop_start @ [prog_L ''Is there a boat?'']) (prog_R ''Is there a boat?'')
       = Inr '' yes ''
   \<and> q_lines (last (printed (loop_body demo_engine 1 ''Is there a boat?'' loop_start)))
       = Answered ''Yes'' '' yes '' False
   \<and> \<not> is_different (last (printed (loop_body demo_engine 1 ''Is there a boat?'' loop_start)))"
proof -
  have l: "demo_engine (executed loop_start) (prog_L ''Is there a boat?'') = Inr ''Yes''"
    by code_simp
  have r: "demo_engine (executed loop_start @ [prog_L ''Is there a boat?''])
             (prog_R ''Is there a boat?'') = Inr '' yes ''"
    by code_simp
  have n: "py_lower (py_strip ''Yes'') = py_lower (py_strip '' yes '')" by code_simp
  show ?thesis
    using different_iff_normalized_answers_differ [where execute = demo_engine and st = loop_start
        and question = "''Is there a boat?''" and i = 1
        and left_ans = "''Yes''" and right_ans = "'' yes ''"] l r n
    by simp
qed

text \<open>
  Claim C10. When the execution for the LEFT image raises, the program for the RIGHT image
  is not executed for that question, the block holds the error and no comparison, and the
  difference counter is what it was before the question.
\<close>
theorem left_failure_skips_right:
  assumes "execute (executed st) (prog_L question) = Inl e"
  shows "executed (loop_body execute i question st) = executed st @ [prog_L question]
       \<and> prog_R question \<noteq> prog_L question
       \<and> printed (loop_body execute i question st) = printed st @
            [\<lparr>q_index = i, q_text = question, q_lines = Errored e,
              q_total = difference_counter st\<rparr>]
       \<and> \<not> is_different (last (printed (loop_body execute i question st)))
       \<and> difference_counter (loop_body execute i question st) = difference_counter st"
  using assms prog_L_neq_prog_R [of question]
  by (auto simp: loop_body_def is_different_def)

theorem left_failure_skips_right_witness:
  "demo_engine (executed loop_start) (prog_L ''Is anyone walking?'')
     = Inl (OtherException ''engine failure'')
   \<and> executed (loop_body demo_engine 1 ''Is anyone walking?'' loop_start)
       = [prog_L ''Is anyone walking?'']
   \<and> difference_counter (loop_body demo_engine 1 ''Is anyone walking?'' loop_start) = 0"
proof -
  have l: "demo_engine (executed loop_start) (prog_L ''Is anyone walking?'')
             = Inl (OtherException ''engine failure'')"
    by code_simp
  show ?thesis
    using left_failure_skips_right [where execute = demo_engine and st = loop_start
        and question = "''Is anyone walking?''" and i = 1
        and e = "OtherException ''engine failure''"] l
    by (simp add: loop_start_def)
qed


lemma question_error_body:
  assumes "question_error execute (executed st) q = Some e"
  shows "printed (loop_body execute i q st) = printed st @
            [\<lparr>q_index = i, q_text = q, q_lines = Errored e, q_total = difference_counter st\<rparr>]
       \<and> difference_counter (loop_body execute i q st) = difference_counter st"
  using assms
  by (auto simp: question_error_def loop_body_def split: sum.splits)

text \<open>
  Claim C4. Every question has a block with its own running total, and the total printed
  after the first \<open>N\<close> questions is the number of blocks among the first \<open>N\<close> whose
  \<open>Different?\<close> line is \<open>Yes\<close>; the final counter is the number of such blocks overall.
\<close>
theorem running_total_counts_differences:
  "length (printed (visprog_loop execute 1 questions loop_start)) = length questions
   \<and> difference_counter (visprog_loop execute 1 questions loop_start)
       = length (filter is_different (printed (visprog_loop execute 1 questions loop_start)))
   \<and> (0 < N \<and> N \<le> length questions \<longrightarrow>
        q_total (printed (visprog_loop execute 1 questions loop_start) ! (N - 1))
          = length (filter is_different
              (take N (printed (visprog_loop execute 1 questions loop_start)))))"
proof -
  obtain new where new:
    "printed (visprog_loop execute 1 questions loop_start) = printed loop_start @ new"
    "map q_text new = questions"
    "difference_counter (visprog_loop execute 1 questions loop_start)
          = difference_counter loop_start + length (filter is_different new)"
    "\<forall>k < length questions. q_index (new ! k) = 1 + k \<and> q_total (new ! k)
          = difference_counter loop_start + length (filter is_different (take (Suc k) new))"
    using visprog_loop_printed [of execute 1 questions loop_start] by blast
  have len: "length new = length questions"
    using new(2) by (metis length_map)
  have p: "printed (visprog_loop execute 1 questions loop_start) = new"
    using new(1) by (simp add: loop_start_def)
  have "q_total (new ! (N - 1)) = length (filter is_different (take N new))"
    if "0 < N" "N \<le> length questions"
  proof -
    have "N - 1 < length questions" using that by simp
    then have "q_total (new ! (N - 1))
          = difference_counter loop_start + length (filter is_different (take (Suc (N - 1)) new))"
      using new(4) by blast
    then show ?thesis using that by (simp add: loop_start_def)
  qed
  then show ?thesis
    using p len new(3) by (simp add: loop_start_def)
qed

theorem running_total_counts_differences_witness:
  "(0::nat) < 4 \<and> (4::nat) \<le> length [''Is there a boat?'', ''How many cars are there?'',
        ''Is anyone walking?'', ''What is the color of the shirt?'', ''Is the dog sitting?'']
   \<and> q_total (printed (visprog_loop demo_engine 1 [''Is there a boat?'',
        ''How many cars are there?'', ''Is anyone walking?'',
        ''What is the color of the shirt?'', ''Is the dog sitting?''] loop_start) ! 3) = 2
   \<and> length (filter is_different (take 4 (printed (visprog_loop demo_engine 1
        [''Is there a boat?'', ''How many cars are there?'', ''Is anyone walking?'',
         ''What is the color of the shirt?'', ''Is the dog sitting?''] loop_start)))) = 2"
proof -
  have v: "q_total (printed (visprog_loop demo_engine 1 [''Is there a boat?'',
        ''How many cars are there?'', ''Is anyone walking?'',
        ''What is the color of the shirt?'', ''Is the dog sitting?''] loop_start) ! 3) = 2"
    by code_simp
  show ?thesis
    using v running_total_counts_differences [where execute = demo_engine and N = 4
        and questions = "[''Is there a boat?'', ''How many cars are there?'',
          ''Is anyone walking?'', ''What is the color of the shirt?'', ''Is the dog sitting?'']"]
    by simp
qed

text \<open>
  Claim C3. When the engine raises while one question is evaluated, the exception is
  caught: the block of that question holds the error, every question of the list, the later
  ones included, has its block in the output, and the loop goes on with the questions
  after it, executing the LEFT program of each.
\<close>
theorem one_failure_does_not_stop_the_loop:
  assumes "question_error execute
             (executed (visprog_loop execute 1 before loop_start)) question = Some e"
  shows "map q_text (printed (visprog_loop execute 1 (before @ question # after) loop_start))
           = before @ question # after
       \<and> printed (visprog_loop execute 1 (before @ question # after) loop_start) ! length before
           = \<lparr>q_index = length before + 1, q_text = question, q_lines = Errored e,
               q_total = difference_counter (visprog_loop execute 1 before loop_start)\<rparr>
       \<and> visprog_loop execute 1 (before @ question # after) loop_start
           = visprog_loop execute (length before + 2) after
               (loop_body execute (length before + 1) question
                  (visprog_loop execute 1 before loop_start))
       \<and> (\<exists>ex. executed (visprog_loop execute 1 (before @ question # after) loop_start)
             = executed (loop_body execute (length before + 1) question
                  (visprog_loop execute 1 before loop_start)) @ ex
           \<and> prog_L ` set after \<subseteq> set ex)"
proof -
  let ?mid = "visprog_loop execute 1 before loop_start"
  let ?st = "loop_body execute (length before + 1) question ?mid"
  let ?final = "visprog_loop execute 1 (before @ question # after) loop_start"
  have split: "?final = visprog_loop execute (length before + 2) after ?st"
    by (simp add: visprog_loop_append)
  obtain new where new: "printed ?final = printed loop_start @ new"
    "map q_text new = before @ question # after"
    using visprog_loop_printed [of execute 1 "before @ question # after" loop_start] by blast
  have texts: "map q_text (printed ?final) = before @ question # after"
    using new by (simp add: loop_start_def)
  obtain new1 where new1: "printed ?mid = printed loop_start @ new1" "map q_text new1 = before"
    using visprog_loop_printed [of execute 1 before loop_start] by blast
  have len1: "length (printed ?mid) = length before"
    using new1 by (metis append_Nil length_map loop_state.select_convs(3) loop_start_def)
  obtain new2 where new2: "printed ?final = printed ?st @ new2"
    using visprog_loop_printed [of execute "length before + 2" after ?st] split by metis
  have body: "printed ?st = printed ?mid @
      [\<lparr>q_index = length before + 1, q_text = question, q_lines = Errored e,
        q_total = difference_counter ?mid\<rparr>]"
    using question_error_body [OF assms] by blast
  have nth: "printed ?final ! length before
        = \<lparr>q_index = length before + 1, q_text = question, q_lines = Errored e,
               q_total = difference_counter ?mid\<rparr>"
    using new2 body len1 by (simp add: nth_append)
  obtain ex where "executed ?final = executed ?st @ ex" "prog_L ` set after \<subseteq> set ex"
    using visprog_loop_executed [of execute "length before + 2" after ?st] split by metis
  then show ?thesis using texts nth split by blast
qed

theorem one_failure_does_not_stop_the_loop_witness:
  "question_error demo_engine
      (executed (visprog_loop demo_engine 1 [''Is there a boat?'', ''How many cars are there?'']
         loop_start)) ''Is anyone walking?'' = Some (OtherException ''engine failure'')
   \<and> map q_lines (printed (visprog_loop demo_engine 1
        ([''Is there a boat?'', ''How many cars are there?''] @ ''Is anyone walking?'' #
         [''What is the color of the shirt?'', ''Is the dog sitting?'']) loop_start))
       = [Answered ''Yes'' '' yes '' False, Answered ''Yes'' ''3'' True,
          Errored (OtherException ''engine failure''),
          Answered ''Yes'' ''No'' True, Answered ''Yes'' '' yes '' False]
   \<and> map q_text (printed (visprog_loop demo_engine 1
        ([''Is there a boat?'', ''How many cars are there?''] @ ''Is anyone walking?'' #
         [''What is the color of the shirt?'', ''Is the dog sitting?'']) loop_start))
       = [''Is there a boat?'', ''How many cars are there?''] @ ''Is anyone walking?'' #
         [''What is the color of the shirt?'', ''Is the dog sitting?'']"
proof -
  have h: "question_error demo_engine
      (executed (visprog_loop demo_engine 1 [''Is there a boat?'', ''How many cars are there?'']
         loop_start)) ''Is anyone walking?'' = Some (OtherException ''engine failure'')"
    by code_simp
  have v: "map q_lines (printed (visprog_loop demo_engine 1
        ([''Is there a boat?'', ''How many cars are there?''] @ ''Is anyone walking?'' #
         [''What is the color of the shirt?'', ''Is the dog sitting?'']) loop_start))
       = [Answered ''Yes'' '' yes '' False, Answered ''Yes'' ''3'' True,
          Errored (OtherException ''engine failure''),
          Answered ''Yes'' ''No'' True, Answered ''Yes'' '' yes '' False]"
    by code_simp
  show ?thesis
    using h v one_failure_does_not_stop_the_loop [OF h,
        of "[''What is the color of the shirt?'', ''Is the dog sitting?'']"]
    by blast
qed

section \<open>Properties of the question extraction\<close>


lemma trim_append:
  assumes "body \<noteq> []" "\<not> P (hd body)" "\<not> P (last body)"
    and "\<forall>x \<in> set pre. P x" "\<forall>x \<in> set post. P x"
  shows "rev (dropWhile P (rev (dropWhile P (pre @ body @ post)))) = body"
proof -
  obtain b bs where b: "body = b # bs" using assms(1) by (cases body) auto
  have 1: "dropWhile P (pre @ body @ post) = body @ post"
    using assms(2,4) b by (simp add: dropWhile_append3)
  obtain l ls where l: "rev body = l # ls" using assms(1) by (cases "rev body") auto
  then have "l = last body" using assms(1) by (metis last_rev list.sel(1) rev_rev_ident hd_rev)
  then have "\<not> P l" using assms(3) by simp
  then have 2: "dropWhile P (rev post @ rev body) = rev body"
    using assms(5) l by (simp add: dropWhile_append3)
  show ?thesis using 1 2 by simp
qed

lemma trim_id:
  assumes "s \<noteq> []" "\<not> P (hd s)" "\<not> P (last s)"
  shows "rev (dropWhile P (rev (dropWhile P s))) = s"
  using trim_append [of s P "[]" "[]"] assms by simp

lemma index_split1:
  assumes "CHR ''.'' \<in> set line"
  shows "py_index (py_split1 (CHR ''.'') line) 1 = Inr (after_first_period line)"
proof -
  have "tl (dropWhile (\<lambda>c. c \<noteq> CHR ''.'') line)
          = drop (Suc (length (takeWhile (\<lambda>c. c \<noteq> CHR ''.'') line))) line"
    by (simp add: dropWhile_eq_drop drop_Suc tl_drop)
  then show ?thesis using assms by (simp add: py_index_def py_split1_def after_first_period_def)
qed

lemma period_candidates_Cons:
  "period_candidates (line # lines) =
     (if CHR ''.'' \<in> set line \<and> py_strip (after_first_period line) \<noteq> []
      then py_strip (after_first_period line) # period_candidates lines
      else period_candidates lines)"
  by (simp add: period_candidates_def)

lemma numbered_items_eq: "numbered_items lines = Inr (period_candidates lines)"
proof (induction lines)
  case Nil
  show ?case by (simp add: period_candidates_def)
next
  case (Cons line lines)
  show ?case
  proof (cases "CHR ''.'' \<in> set line")
    case True
    then show ?thesis
      using Cons index_split1 [OF True]
      by (simp add: period_candidates_Cons del: One_nat_def)
  next
    case False
    then show ?thesis using Cons by (simp add: period_candidates_Cons)
  qed
qed

lemma period_candidates_nonempty: "list_all (\<lambda>t. t \<noteq> []) (period_candidates lines)"
  by (simp add: period_candidates_def list_all_iff)

lemma try3_body_eq:
  "try3_body content =
     Inr (if 3 \<le> length (period_candidates (py_splitlines (py_strip content)))
          then Some (map JString (period_candidates (py_splitlines (py_strip content))))
          else None)"
  by (simp add: try3_body_def numbered_items_eq)

lemma try1_accepts:
  assumes "except_Exception (try1_body loads content) = Some items"
  shows "loads (try2_stripped content) = Inr (JArray items)"
  using assms
  by (auto simp: except_Exception_def try1_body_def try2_stripped_def Let_def
           split: if_splits sum.splits json.splits)

lemma try2_accepts:
  assumes "except_Exception (try2_body loads content) = Some items"
  shows "loads (try2_stripped content) = Inr (JArray items)"
  using assms
  by (auto simp: except_Exception_def try2_body_def split: sum.splits json.splits)

lemma fallback_ok: "fallback_questions \<noteq> [] \<and> list_all nonempty_str fallback_questions"
  by (simp add: fallback_questions_def nonempty_str_def)

lemma try3_ok:
  assumes "except_Exception (try3_body content) = Some items"
  shows "items \<noteq> [] \<and> list_all nonempty_str items"
proof -
  let ?c = "period_candidates (py_splitlines (py_strip content))"
  have items: "items = map JString ?c" and len: "3 \<le> length ?c"
    using assms by (auto simp: try3_body_eq except_Exception_def split: if_splits)
  have "list_all nonempty_str (map JString ?c)"
    using period_candidates_nonempty [of "py_splitlines (py_strip content)"]
    by (simp add: list_all_iff nonempty_str_def)
  moreover have "?c \<noteq> []" using len by auto
  ultimately show ?thesis using items by simp
qed

text \<open>
  Claim C1, as amended. For every decoder and every completion text the extraction returns
  a list: an exception raised inside a \<open>try\<close> is caught and the next attempt runs.
  Either the decoder returned a JSON array for the stripped text, and the list returned is
  that array as it is, or the list is a non-empty list of non-empty strings.
\<close>
theorem extraction_total:
  "loads (try2_stripped content) = Inr (JArray (questions_from_content loads content))
   \<or> (questions_from_content loads content \<noteq> []
       \<and> list_all nonempty_str (questions_from_content loads content))"
proof (cases "except_Exception (try1_body loads content)")
  case (Some items)
  then show ?thesis using try1_accepts [OF Some] by (simp add: questions_from_content_def)
next
  case n1: None
  show ?thesis
  proof (cases "except_Exception (try2_body loads content)")
    case (Some items)
    then show ?thesis using try2_accepts [OF Some] n1 by (simp add: questions_from_content_def)
  next
    case n2: None
    show ?thesis
    proof (cases "except_Exception (try3_body content)")
      case (Some items)
      then show ?thesis using try3_ok [OF Some] n1 n2 by (simp add: questions_from_content_def)
    next
      case None
      then show ?thesis using fallback_ok n1 n2 by (simp add: questions_from_content_def)
    qed
  qed
qed

lemma json_loads_no_fence:
  assumes "json_loads s = Inr v"
  shows "\<not> startswith s ''```''"
proof
  assume "startswith s ''```''"
  then obtain rest where s: "s = CHR 0x60 # rest"
    by (cases s) (auto simp: startswith_def)
  have "parse_value (Suc (2 * length s)) (skip_ws s) = Inl JSONDecodeError"
    unfolding s
    by (simp add: skip_ws_def json_ws_def startswith_def scan_number_def scan_int_def
        is_digit_def scan_constant_def)
  then show False using assms by (simp add: json_loads_def)
qed


lemma startswith_append:
  assumes "startswith s (p @ q)"
  shows "startswith s p"
proof -
  have "take (length p) (take (length p + length q) s) = take (length p) (p @ q)"
    using assms by (simp add: startswith_def)
  then show ?thesis by (simp add: startswith_def min_def)
qed

lemma startswith_fence_json: "startswith s ''```json'' \<Longrightarrow> startswith s ''```''"
  using startswith_append [of s "''```''" "''json''"] by simp

lemma try2_stripped_fenced:
  assumes "body \<noteq> []" "hd body \<notin> set ''```json''" "last body \<notin> set ''```json''"
  shows "try2_stripped (''```json'' @ body @ ''```'') = py_strip body"
    and "startswith (py_strip (''```json'' @ body @ ''```'')) ''```json''"
    and "py_strip (py_strip_chars ''```'' (py_strip_chars ''```json''
           (py_strip (''```json'' @ body @ ''```'')))) = py_strip body"
proof -
  let ?F = "''```json'' @ body @ ''```''"
  have last: "last ?F = CHR 0x60" by simp
  have ns: "\<not> py_isspace (CHR 0x60)" by (simp add: py_isspace_def)
  have F: "py_strip ?F = ?F"
    unfolding py_strip_def
  proof (rule trim_id)
    show "?F \<noteq> []" by simp
    show "\<not> py_isspace (hd ?F)" using ns by simp
    show "\<not> py_isspace (last ?F)" unfolding last by (rule ns)
  qed
  have sw: "startswith ?F ''```json''" by (simp add: startswith_def)
  have 1: "py_strip_chars ''```json'' ?F = body"
    unfolding py_strip_chars_def
    by (rule trim_append) (use assms in simp_all)
  have 2: "py_strip_chars ''```'' body = body"
    unfolding py_strip_chars_def
    by (rule trim_id) (use assms in simp_all)
  show "try2_stripped ?F = py_strip body"
    using F sw 1 2 by (simp add: try2_stripped_def Let_def)
  show "startswith (py_strip ?F) ''```json''" using F sw by simp
  show "py_strip (py_strip_chars ''```'' (py_strip_chars ''```json'' (py_strip ?F)))
          = py_strip body"
    using F 1 2 by simp
qed

lemma questions_from_json_array:
  assumes "loads (try2_stripped content) = Inr (JArray items)"
  shows "questions_from_content loads content = items"
proof (cases "startswith (py_strip content) ''```json''")
  case True
  then have "try1_body loads content = Inr (Some items)"
    using assms by (simp add: try1_body_def try2_stripped_def Let_def)
  then show ?thesis by (simp add: questions_from_content_def except_Exception_def)
next
  case False
  then have "try1_body loads content = Inr None" by (simp add: try1_body_def)
  moreover have "try2_body loads content = Inr (Some items)"
    using assms by (simp add: try2_body_def)
  ultimately show ?thesis by (simp add: questions_from_content_def except_Exception_def)
qed

lemma questions_without_json_array:
  assumes "\<And>items. loads (try2_stripped content) \<noteq> Inr (JArray items)"
  shows "questions_from_content loads content =
     (if 3 \<le> length (period_candidates (py_splitlines (py_strip content)))
      then map JString (period_candidates (py_splitlines (py_strip content)))
      else fallback_questions)"
    and "except_Exception (try1_body loads content) = None"
    and "except_Exception (try2_body loads content) = None"
proof -
  show 1: "except_Exception (try1_body loads content) = None"
  proof (cases "except_Exception (try1_body loads content)")
    case (Some items)
    then show ?thesis using try1_accepts [OF Some] assms by simp
  qed simp
  show 2: "except_Exception (try2_body loads content) = None"
  proof (cases "except_Exception (try2_body loads content)")
    case (Some items)
    then show ?thesis using try2_accepts [OF Some] assms by simp
  qed simp
  show "questions_from_content loads content =
     (if 3 \<le> length (period_candidates (py_splitlines (py_strip content)))
      then map JString (period_candidates (py_splitlines (py_strip content)))
      else fallback_questions)"
    using 1 2 by (simp add: questions_from_content_def try3_body_eq except_Exception_def)
qed

text \<open>
  The claim C1 as it is stated fails: for the text \<open>[]\<close> the extraction returns the empty
  list.
\<close>
theorem extraction_nonempty_counterexample:
  "\<not> (questions_from_content json_loads ''[]'' \<noteq> []
       \<and> list_all nonempty_str (questions_from_content json_loads ''[]''))"
proof -
  have "questions_from_content json_loads ''[]'' = []" by code_simp
  then show ?thesis by simp
qed

theorem extraction_total_witness:
  "questions_from_content json_loads ''no questions here'' = fallback_questions
   \<and> questions_from_content json_loads ''no questions here'' \<noteq> []
   \<and> list_all nonempty_str (questions_from_content json_loads ''no questions here'')"
proof -
  have 1: "json_loads (try2_stripped ''no questions here'') = Inl JSONDecodeError"
    by code_simp
  have 2: "questions_from_content json_loads ''no questions here'' = fallback_questions"
    by code_simp
  show ?thesis
    using extraction_total [of json_loads "''no questions here''"] 1 2 by simp
qed

text \<open>
  The claim C5 as it is stated fails: for the text \<open>[1]\<close> the extraction returns the
  integer 1, not the string \<open>1\<close>.
\<close>
theorem json_elements_not_coerced_counterexample:
  "questions_from_content json_loads ''[1]'' = [JInt 1]
   \<and> questions_from_content json_loads ''[1]'' \<noteq> [JString ''1'']"
proof -
  have "questions_from_content json_loads ''[1]'' = [JInt 1]" by code_simp
  then show ?thesis by simp
qed

text \<open>
  Claim C5, as amended. A JSON attempt returns only when the decoder gave a JSON array for
  the stripped text, and it returns the elements of the array as decoded. A text made of
  the fence \<open>```json\<close>, a body and the fence \<open>```\<close> gives the same list as the body
  alone, when the body decodes to an array and neither begins nor ends with a character
  of the fence.
\<close>
theorem json_tiers_return_the_array:
  "(except_Exception (try1_body loads content) = Some items
      \<longrightarrow> loads (try2_stripped content) = Inr (JArray items)
          \<and> questions_from_content loads content = items)
   \<and> (except_Exception (try2_body loads content) = Some items
      \<longrightarrow> loads (try2_stripped content) = Inr (JArray items)
          \<and> questions_from_content loads content = items)
   \<and> (body \<noteq> [] \<and> hd body \<notin> set ''```json'' \<and> last body \<notin> set ''```json''
       \<and> \<not> startswith (py_strip body) ''```''
       \<and> loads (py_strip body) = Inr (JArray items)
      \<longrightarrow> questions_from_content loads (''```json'' @ body @ ''```'') = items
          \<and> questions_from_content loads body = items)"
proof (intro conjI impI)
  assume a: "except_Exception (try1_body loads content) = Some items"
  show "loads (try2_stripped content) = Inr (JArray items)" by (rule try1_accepts [OF a])
  then show "questions_from_content loads content = items" by (rule questions_from_json_array)
next
  assume a: "except_Exception (try2_body loads content) = Some items"
  show "loads (try2_stripped content) = Inr (JArray items)" by (rule try2_accepts [OF a])
  then show "questions_from_content loads content = items" by (rule questions_from_json_array)
next
  assume a: "body \<noteq> [] \<and> hd body \<notin> set ''```json'' \<and> last body \<notin> set ''```json''
       \<and> \<not> startswith (py_strip body) ''```''
       \<and> loads (py_strip body) = Inr (JArray items)"
  then have "try2_stripped (''```json'' @ body @ ''```'') = py_strip body"
    using try2_stripped_fenced(1) by blast
  then show "questions_from_content loads (''```json'' @ body @ ''```'') = items"
    using a by (simp add: questions_from_json_array)
  have "\<not> startswith (py_strip body) ''```json''"
    using a startswith_fence_json by blast
  then have "try2_stripped body = py_strip body"
    using a by (simp add: try2_stripped_def Let_def)
  then show "questions_from_content loads body = items"
    using a by (simp add: questions_from_json_array)
qed


theorem json_tiers_return_the_array_witness:
  "except_Exception (try1_body json_loads
       (''```json'' @ ([CHR 0x0A] @ ''[\"A?\",\"B?\"]'' @ [CHR 0x0A]) @ ''```''))
     = Some [JString ''A?'', JString ''B?'']
   \<and> except_Exception (try2_body json_loads
       (''```json'' @ ([CHR 0x0A] @ ''[\"A?\",\"B?\"]'' @ [CHR 0x0A]) @ ''```''))
     = Some [JString ''A?'', JString ''B?'']
   \<and> json_loads (py_strip ([CHR 0x0A] @ ''[\"A?\",\"B?\"]'' @ [CHR 0x0A]))
     = Inr (JArray [JString ''A?'', JString ''B?''])
   \<and> questions_from_content json_loads
       (''```json'' @ ([CHR 0x0A] @ ''[\"A?\",\"B?\"]'' @ [CHR 0x0A]) @ ''```'')
     = [JString ''A?'', JString ''B?'']
   \<and> questions_from_content json_loads ([CHR 0x0A] @ ''[\"A?\",\"B?\"]'' @ [CHR 0x0A])
     = [JString ''A?'', JString ''B?'']"
proof -
  let ?body = "[CHR 0x0A] @ ''[\"A?\",\"B?\"]'' @ [CHR 0x0A]"
  let ?items = "[JString ''A?'', JString ''B?'']"
  have 1: "except_Exception (try1_body json_loads (''```json'' @ ?body @ ''```'')) = Some ?items"
    by code_simp
  have 2: "except_Exception (try2_body json_loads (''```json'' @ ?body @ ''```'')) = Some ?items"
    by code_simp
  have 3: "json_loads (py_strip ?body) = Inr (JArray ?items)"
    by code_simp
  have 4: "\<not> startswith (py_strip ?body) ''```''"
    by code_simp
  have 5: "?body \<noteq> [] \<and> hd ?body \<notin> set ''```json'' \<and> last ?body \<notin> set ''```json''"
    by simp
  show ?thesis
    using json_tiers_return_the_array [where loads = json_loads and items = ?items
        and body = ?body and content = "''```json'' @ ?body @ ''```''"] 1 2 3 4 5
    by blast
qed

text \<open>
  Claim C6. The numbered-list attempt collects, for every line containing a period, the
  trimmed text after the first period when it is not empty, in line order; it returns the
  collected list exactly when the list has at least 3 entries; with 1 or 2 entries, when
  the JSON attempts have not returned, the extraction returns the fallback list.
\<close>
theorem numbered_list_threshold:
  "numbered_items (py_splitlines (py_strip content))
     = Inr (period_candidates (py_splitlines (py_strip content)))
   \<and> (except_Exception (try3_body content) = Some questions)
       = (3 \<le> length (period_candidates (py_splitlines (py_strip content)))
          \<and> questions = map JString (period_candidates (py_splitlines (py_strip content))))
   \<and> ((length (period_candidates (py_splitlines (py_strip content))) = 1
        \<or> length (period_candidates (py_splitlines (py_strip content))) = 2)
       \<and> except_Exception (try1_body loads content) = None
       \<and> except_Exception (try2_body loads content) = None
      \<longrightarrow> except_Exception (try3_body content) = None
          \<and> questions_from_content loads content = fallback_questions)"
proof (intro conjI impI)
  show "numbered_items (py_splitlines (py_strip content))
     = Inr (period_candidates (py_splitlines (py_strip content)))"
    by (rule numbered_items_eq)
  show "(except_Exception (try3_body content) = Some questions)
       = (3 \<le> length (period_candidates (py_splitlines (py_strip content)))
          \<and> questions = map JString (period_candidates (py_splitlines (py_strip content))))"
    by (auto simp: try3_body_eq except_Exception_def)
next
  assume a: "(length (period_candidates (py_splitlines (py_strip content))) = 1
        \<or> length (period_candidates (py_splitlines (py_strip content))) = 2)
       \<and> except_Exception (try1_body loads content) = None
       \<and> except_Exception (try2_body loads content) = None"
  then have small: "\<not> 3 \<le> length (period_candidates (py_splitlines (py_strip content)))"
    by auto
  then show 3: "except_Exception (try3_body content) = None"
    by (simp add: try3_body_eq except_Exception_def)
  show "questions_from_content loads content = fallback_questions"
    using a 3 by (simp add: questions_from_content_def)
qed

theorem numbered_list_threshold_witness:
  "length (period_candidates (py_splitlines (py_strip
       (''1. Only one.'' @ [CHR 0x0A] @ ''2. item two.'')))) = 2
   \<and> except_Exception (try1_body json_loads
       (''1. Only one.'' @ [CHR 0x0A] @ ''2. item two.'')) = None
   \<and> except_Exception (try2_body json_loads
       (''1. Only one.'' @ [CHR 0x0A] @ ''2. item two.'')) = None
   \<and> except_Exception (try3_body (''1. Only one.'' @ [CHR 0x0A] @ ''2. item two.'')) = None
   \<and> questions_from_content json_loads (''1. Only one.'' @ [CHR 0x0A] @ ''2. item two.'')
       = fallback_questions"
proof -
  let ?c = "''1. Only one.'' @ [CHR 0x0A] @ ''2. item two.''"
  have 1: "length (period_candidates (py_splitlines (py_strip ?c))) = 2" by code_simp
  have 2: "except_Exception (try1_body json_loads ?c) = None" by code_simp
  have 3: "except_Exception (try2_body json_loads ?c) = None" by code_simp
  show ?thesis
    using numbered_list_threshold [where loads = json_loads and content = ?c] 1 2 3
    by blast
qed

text \<open>
  Claim C7. When the trimmed text decodes to a JSON value that is not a list and no line
  gives a candidate to the numbered-list attempt, both JSON attempts end without returning,
  the value is not returned as a list of one element, and the extraction returns the fixed
  list of 4 questions.
\<close>
theorem json_non_list_falls_to_fallback:
  assumes "json_loads (py_strip content) = Inr v"
    and "\<not> is_list v"
    and "period_candidates (py_splitlines (py_strip content)) = []"
  shows "try1_body json_loads content = Inr None
       \<and> try2_body json_loads content = Inr None
       \<and> questions_from_content json_loads content = fallback_questions
       \<and> questions_from_content json_loads content \<noteq> [v]
       \<and> length fallback_questions = 4"
proof -
  have nf: "\<not> startswith (py_strip content) ''```''"
    using json_loads_no_fence [OF assms(1)] .
  then have nfj: "\<not> startswith (py_strip content) ''```json''"
    using startswith_fence_json by blast
  have 1: "try1_body json_loads content = Inr None"
    using nfj by (simp add: try1_body_def)
  have s: "try2_stripped content = py_strip content"
    using nf nfj by (simp add: try2_stripped_def Let_def)
  have 2: "try2_body json_loads content = Inr None"
    using assms(1,2) s by (cases v) (simp_all add: try2_body_def is_list_def)
  have 3: "except_Exception (try3_body content) = None"
    using assms(3) by (simp add: try3_body_eq except_Exception_def)
  have 4: "questions_from_content json_loads content = fallback_questions"
    using 1 2 3 by (simp add: questions_from_content_def except_Exception_def)
  have 5: "length fallback_questions = 4" by (simp add: fallback_questions_def)
  have "fallback_questions \<noteq> [v]" by (simp add: fallback_questions_def)
  then show ?thesis using 1 2 4 5 by simp
qed

theorem json_non_list_falls_to_fallback_witness:
  "json_loads (py_strip ''{\"not\":\"a list\"}'') = Inr (JObject [(''not'', JString ''a list'')])
   \<and> \<not> is_list (JObject [(''not'', JString ''a list'')])
   \<and> period_candidates (py_splitlines (py_strip ''{\"not\":\"a list\"}'')) = []
   \<and> questions_from_content json_loads ''{\"not\":\"a list\"}'' = fallback_questions
   \<and> questions_from_content json_loads ''{\"not\":\"a list\"}''
       \<noteq> [JObject [(''not'', JString ''a list'')]]"
proof -
  have 1: "json_loads (py_strip ''{\"not\":\"a list\"}'')
             = Inr (JObject [(''not'', JString ''a list'')])"
    by code_simp
  have 2: "\<not> is_list (JObject [(''not'', JString ''a list'')])"
    by (simp add: is_list_def)
  have 3: "period_candidates (py_splitlines (py_strip ''{\"not\":\"a list\"}'')) = []"
    by code_simp
  show ?thesis
    using json_non_list_falls_to_fallback [OF 1 2 3] 1 2 3 by blast
qed

section \<open>Properties of the orchestration\<close>


text \<open>
  Claim C8. For every environment and every three paths, when one of the two scene image
  paths does not exist, \<open>compare_images\<close> raises the \<open>FileNotFoundError\<close> of line 151
  and has made no call to the outside: no request is sent and no file is read.
\<close>
theorem missing_scene_image_raises_before_any_request:
  assumes "\<not> (os_path_exists (fs e) img1_path \<and> os_path_exists (fs e) img2_path)"
  shows "compare_images e img1_path img2_path diff_path
           = (Inl (FileNotFoundError '' One or both image paths do not exist.''), [])
       \<and> filter is_request (snd (compare_images e img1_path img2_path diff_path)) = []"
  using assms by (simp add: compare_images_def)

theorem missing_scene_image_raises_before_any_request_witness:
  "\<not> (os_path_exists (fs demo_env) ''assets/hard1.png''
        \<and> os_path_exists (fs demo_env) ''assets/none.png'')
   \<and> compare_images demo_env ''assets/hard1.png'' ''assets/none.png''
         ''assets/difference_heatmap.png''
       = (Inl (FileNotFoundError '' One or both image paths do not exist.''), [])"
proof -
  have h: "\<not> (os_path_exists (fs demo_env) ''assets/hard1.png''
        \<and> os_path_exists (fs demo_env) ''assets/none.png'')"
    by code_simp
  show ?thesis
    using missing_scene_image_raises_before_any_request [OF h] h by blast
qed

text \<open>
  The claim C9 as it is stated fails: with both scene images present and the heatmap
  missing, the exception raised is the \<open>FileNotFoundError\<close> of \<open>open\<close>, no request has
  been sent, and the failure is not the transport failure of line 65.
\<close>
theorem unreadable_heatmap_counterexample:
  "compare_images demo_env ''assets/hard1.png'' ''assets/hard2.png'' ''assets/missing.png''
     = (Inl (FileNotFoundError ''[Errno 2] No such file or directory: assets/missing.png''),
        [ReadFile ''assets/hard1.png'', ReadFile ''assets/hard2.png'',
         ReadFile ''assets/missing.png''])
   \<and> \<not> is_transport_failure
         (fst (compare_images demo_env ''assets/hard1.png'' ''assets/hard2.png''
                 ''assets/missing.png''))"
proof -
  have "compare_images demo_env ''assets/hard1.png'' ''assets/hard2.png'' ''assets/missing.png''
     = (Inl (FileNotFoundError ''[Errno 2] No such file or directory: assets/missing.png''),
        [ReadFile ''assets/hard1.png'', ReadFile ''assets/hard2.png'',
         ReadFile ''assets/missing.png''])"
    by code_simp
  then show ?thesis by (simp add: is_transport_failure_def)
qed

text \<open>
  Claim C9, as amended. The heatmap path is not checked by \<open>compare_images\<close>: when the
  two scene images can be read and the heatmap cannot be opened, the exception comes from
  the file read of \<open>encode_image_to_base64\<close> inside \<open>get_comparison_questions\<close>, after
  the two scene images have been read and before any request is sent. It is a
  \<open>FileNotFoundError\<close> of \<open>open\<close> when the path does not exist and another \<open>OSError\<close>
  otherwise; it is neither the exception of line 151 nor the transport failure of line 65.
\<close>
theorem unreadable_heatmap_fails_in_file_read:
  assumes "fs e img1_path = Readable bytes1"
    and "fs e img2_path = Readable bytes2"
    and "fs e diff_path = Absent \<or> fs e diff_path = Unreadable"
  shows "\<exists>x. encode_image_to_base64 e diff_path = Inl x
           \<and> compare_images e img1_path img2_path diff_path
               = (Inl x, [ReadFile img1_path, ReadFile img2_path, ReadFile diff_path])
           \<and> x = (if fs e diff_path = Absent
                  then FileNotFoundError (''[Errno 2] No such file or directory: '' @ diff_path)
                  else OSError diff_path)
           \<and> x \<noteq> FileNotFoundError '' One or both image paths do not exist.''
           \<and> \<not> is_transport_failure (fst (compare_images e img1_path img2_path diff_path))
           \<and> filter is_request (snd (compare_images e img1_path img2_path diff_path)) = []"
proof -
  let ?x = "if fs e diff_path = Absent
            then FileNotFoundError (''[Errno 2] No such file or directory: '' @ diff_path)
            else OSError diff_path"
  have ex: "os_path_exists (fs e) img1_path \<and> os_path_exists (fs e) img2_path"
    using assms(1,2) by (simp add: os_path_exists_def)
  have r: "encode_image_to_base64 e diff_path = Inl ?x"
    using assms(3) by (auto simp: encode_image_to_base64_def open_rb_read_def)
  have r1: "encode_image_to_base64 e img1_path = Inr bytes1"
    using assms(1) by (simp add: encode_image_to_base64_def open_rb_read_def)
  have r2: "encode_image_to_base64 e img2_path = Inr bytes2"
    using assms(2) by (simp add: encode_image_to_base64_def open_rb_read_def)
  have q: "get_comparison_questions e img1_path img2_path diff_path
      = (Inl ?x, [ReadFile img1_path, ReadFile img2_path, ReadFile diff_path])"
    by (simp only: get_comparison_questions_def r r1 r2 sum.case)
  have c: "compare_images e img1_path img2_path diff_path
      = (Inl ?x, [ReadFile img1_path, ReadFile img2_path, ReadFile diff_path])"
    using ex by (simp only: compare_images_def q) simp
  have d: "?x \<noteq> FileNotFoundError '' One or both image paths do not exist.''"
    by simp
  have t: "\<not> is_transport_failure (fst (compare_images e img1_path img2_path diff_path))"
    unfolding c by (simp add: is_transport_failure_def)
  have n: "filter is_request (snd (compare_images e img1_path img2_path diff_path)) = []"
    unfolding c by (simp add: is_request_def)
  show ?thesis using r c d t n by blast
qed

theorem unreadable_heatmap_fails_in_file_read_witness:
  "fs demo_env ''assets/hard1.png'' = Readable ''left''
   \<and> fs demo_env ''assets/hard2.png'' = Readable ''right''
   \<and> fs demo_env ''assets/missing.png'' = Absent
   \<and> compare_images demo_env ''assets/hard1.png'' ''assets/hard2.png'' ''assets/missing.png''
       = (Inl (FileNotFoundError ''[Errno 2] No such file or directory: assets/missing.png''),
          [ReadFile ''assets/hard1.png'', ReadFile ''assets/hard2.png'',
           ReadFile ''assets/missing.png''])
   \<and> filter is_request (snd (compare_images demo_env ''assets/hard1.png''
        ''assets/hard2.png'' ''assets/missing.png'')) = []"
proof -
  have 1: "fs demo_env ''assets/hard1.png'' = Readable ''left''" by code_simp
  have 2: "fs demo_env ''assets/hard2.png'' = Readable ''right''" by code_simp
  have 3: "fs demo_env ''assets/missing.png'' = Absent" by code_simp
  have 4: "fs demo_env ''assets/missing.png'' = Absent
             \<or> fs demo_env ''assets/missing.png'' = Unreadable"
    using 3 by simp
  obtain x where x: "compare_images demo_env ''assets/hard1.png'' ''assets/hard2.png''
        ''assets/missing.png''
       = (Inl x, [ReadFile ''assets/hard1.png'', ReadFile ''assets/hard2.png'',
           ReadFile ''assets/missing.png''])"
    "x = (if fs demo_env ''assets/missing.png'' = Absent
          then FileNotFoundError (''[Errno 2] No such file or directory: ''
                 @ ''assets/missing.png'')
          else OSError ''assets/missing.png'')"
    "filter is_request (snd (compare_images demo_env ''assets/hard1.png''
        ''assets/hard2.png'' ''assets/missing.png'')) = []"
    using unreadable_heatmap_fails_in_file_read [OF 1 2 4] by blast
  have "x = FileNotFoundError ''[Errno 2] No such file or directory: assets/missing.png''"
    using x(2) 3 by simp
  then show ?thesis using 1 2 3 x(1,3) by blast
qed

end
